theory Spec2Isabelle
  imports Complex_Main
begin

section \<open>Data model of \<open>src/App.tsx\<close>\<close>

text \<open>
  JavaScript numbers are modelled as real numbers: rounding of floating point
  arithmetic, NaN and the infinities are not represented. A Leaflet position, the array
  \<open>[lat, lng]\<close>, is a pair.
\<close>

type_synonym latlng = "real \<times> real"

text \<open>\<open>interface Coordinates\<close> and \<open>interface RouteStep\<close> (lines 26 to 34).\<close>

record Coordinates =
  lat :: real
  lng :: real

record RouteStep =
  instruction :: string
  distance :: int

subsection \<open>Payloads of the two services\<close>

text \<open>
  The geocoding service answers with a JSON array of candidates, each with the string
  members \<open>lat\<close> and \<open>lon\<close>; \<open>GeoTransportError\<close> stands for a rejected
  \<open>fetch\<close> or \<open>response.json()\<close>.
\<close>

record GeoResult =
  result_lat :: string
  result_lon :: string

datatype geo_response = GeoTransportError | GeoResults "GeoResult list"

text \<open>
  The routing payload
  \<open>{code, routes: [{legs: [{steps: [{maneuver: {instruction}, name, distance}]}],
  geometry: {coordinates}}]}\<close>. The arrays may be empty; the member \<open>geometry\<close> of a
  route and the member \<open>instruction\<close> of a maneuver may be missing. A GeoJSON position
  is the pair \<open>[lon, lat]\<close>. Every \<open>Step\<close> has its maneuver: \<open>maneuver_instruction\<close>
  is \<open>None\<close> when the maneuver has no member \<open>instruction\<close>.
\<close>

record Step =
  maneuver_instruction :: "string option"
  step_name :: string
  step_distance :: real

record Leg =
  steps :: "Step list"

record Geometry =
  coordinates :: "(real \<times> real) list"

record Route =
  legs :: "Leg list"
  geometry :: "Geometry option"

record RoutePayload =
  code :: string
  routes :: "Route list"

text \<open>
  The answers to the routing request. \<open>RouteTransportError\<close> is a rejected \<open>fetch\<close>
  or \<open>response.json()\<close>. \<open>RouteStepWithoutManeuver\<close> is an answer of status \<open>Ok\<close>
  with a first route and a first leg, one of whose steps has no member \<open>maneuver\<close>:
  \<open>step.maneuver.instruction\<close> (line 75) throws while the steps are mapped, and nothing
  else of such an answer is read.
\<close>

datatype route_response =
    RouteTransportError
  | RouteData RoutePayload
  | RouteStepWithoutManeuver

subsection \<open>The map and the state of the application\<close>

text \<open>
  The layers of the Leaflet map. \<open>L.Marker\<close> and \<open>L.Polyline\<close> are the two classes
  that \<open>updateRoute\<close> tests with \<open>instanceof\<close>; every other layer (the tile layer) is
  \<open>OtherLayer\<close>.
\<close>

datatype icon = DefaultIcon | airportIcon

datatype layer =
    Marker latlng icon string
  | Polyline "latlng list" string nat
  | OtherLayer string

datatype viewport = InitialView latlng nat | FitBounds "latlng list" "nat \<times> nat"

datatype request = GeocodeRequest string | RouteRequest Coordinates Coordinates

datatype js_error = Error string | TypeError | NetworkError

text \<open>The calls with an effect outside the map, in the order they are made.\<close>

datatype event =
    Fetch request
  | ConsoleError string js_error
  | SetError "string option"
  | SetDirections "RouteStep list"

text \<open>
  The five \<open>useState\<close> cells of \<open>App\<close> (lines 178 to 182), the map that
  \<open>useMap()\<close> returns, and the trace of effects.
\<close>

record world =
  origin :: string
  destination :: string
  error :: "string option"
  directions :: "RouteStep list"
  tabValue :: nat
  layers :: "layer list"
  view :: viewport
  trace :: "event list"

section \<open>Operations\<close>

text \<open>The three fixed messages of the banner (lines 57, 84 and 190).\<close>

definition location_message :: string where
  "location_message = ''Error finding location. Please try a different address.''"

definition route_message :: string where
  "route_message = ''Error finding route. Please try again.''"

definition input_message :: string where
  "input_message = ''Please enter both origin and destination''"

text \<open>The first arguments of the two \<open>console.error\<close> calls (lines 56 and 83).\<close>

definition coordinates_log :: string where
  "coordinates_log = ''Error getting coordinates:''"

definition route_log :: string where
  "route_log = ''Error getting route:''"

definition setError :: "string option \<Rightarrow> world \<Rightarrow> world" where
  "setError e w = w\<lparr>error := e, trace := trace w @ [SetError e]\<rparr>"

definition setDirections :: "RouteStep list \<Rightarrow> world \<Rightarrow> world" where
  "setDirections ds w = w\<lparr>directions := ds, trace := trace w @ [SetDirections ds]\<rparr>"

definition fetch :: "request \<Rightarrow> world \<Rightarrow> world" where
  "fetch r w = w\<lparr>trace := trace w @ [Fetch r]\<rparr>"

definition console_error :: "string \<Rightarrow> js_error \<Rightarrow> world \<Rightarrow> world" where
  "console_error msg e w = w\<lparr>trace := trace w @ [ConsoleError msg e]\<rparr>"

definition addTo :: "layer \<Rightarrow> world \<Rightarrow> world" where
  "addTo l w = w\<lparr>layers := layers w @ [l]\<rparr>"

subsection \<open>\<open>handleSubmit\<close> and the other handlers of \<open>App\<close>\<close>

definition handleSubmit :: "world \<Rightarrow> world" where
  "handleSubmit w =
     (if origin w = [] \<or> destination w = []
      then setError (Some input_message) w
      else setError None w)"

definition handleTabChange :: "nat \<Rightarrow> world \<Rightarrow> world" where
  "handleTabChange newValue w = w\<lparr>tabValue := newValue\<rparr>"

definition setOrigin :: "string \<Rightarrow> world \<Rightarrow> world" where
  "setOrigin v w = w\<lparr>origin := v\<rparr>"

definition setDestination :: "string \<Rightarrow> world \<Rightarrow> world" where
  "setDestination v w = w\<lparr>destination := v\<rparr>"

subsection \<open>\<open>getCoordinates\<close> (lines 44 to 60)\<close>

text \<open>
  The body of the \<open>try\<close>: the first candidate, its two members read by
  \<open>parseFloat\<close> (a parameter), or the value thrown.
\<close>

definition geocode_try :: "(string \<Rightarrow> real) \<Rightarrow> geo_response \<Rightarrow> js_error + Coordinates" where
  "geocode_try parseFloat resp =
     (case resp of
        GeoTransportError \<Rightarrow> Inl NetworkError
      | GeoResults [] \<Rightarrow> Inl (Error ''Location not found'')
      | GeoResults (r # _) \<Rightarrow>
          Inr \<lparr>lat = parseFloat (result_lat r), lng = parseFloat (result_lon r)\<rparr>)"

definition getCoordinates ::
  "(string \<Rightarrow> real) \<Rightarrow> string \<Rightarrow> geo_response \<Rightarrow> world \<Rightarrow> Coordinates option \<times> world" where
  "getCoordinates parseFloat address resp w =
     (let w1 = fetch (GeocodeRequest address) w in
      case geocode_try parseFloat resp of
        Inr c \<Rightarrow> (Some c, w1)
      | Inl e \<Rightarrow>
          (None,
           setError (Some location_message)
             (console_error coordinates_log e w1)))"

subsection \<open>\<open>getRoute\<close> (lines 62 to 87)\<close>

text \<open>\<open>Math.round\<close>: the nearest integer, a tie going up.\<close>

definition Math_round :: "real \<Rightarrow> int" where
  "Math_round x = \<lfloor>x + 1 / 2\<rfloor>"

text \<open>\<open>a || b\<close> on a string that may be missing: the empty string is falsy too.\<close>

definition or_else :: "string option \<Rightarrow> string \<Rightarrow> string" where
  "or_else a b = (case a of None \<Rightarrow> b | Some s \<Rightarrow> if s = [] then b else s)"

definition toRouteStep :: "Step \<Rightarrow> RouteStep" where
  "toRouteStep step =
     \<lparr>instruction = or_else (maneuver_instruction step) (step_name step),
      distance = Math_round (step_distance step)\<rparr>"

definition route_catch :: "js_error \<Rightarrow> world \<Rightarrow> latlng list option \<times> world" where
  "route_catch e w =
     (None,
      setError (Some route_message)
        (console_error route_log e w))"

definition getRoute ::
  "Coordinates \<Rightarrow> Coordinates \<Rightarrow> route_response \<Rightarrow> world \<Rightarrow> latlng list option \<times> world" where
  "getRoute start finish resp w =
     (let w1 = fetch (RouteRequest start finish) w in
      case resp of
        RouteTransportError \<Rightarrow> route_catch NetworkError w1
      | RouteStepWithoutManeuver \<Rightarrow> route_catch TypeError w1
      | RouteData data \<Rightarrow>
          if code data \<noteq> ''Ok'' then route_catch (Error ''Route not found'') w1
          else
            (case routes data of
               [] \<Rightarrow> route_catch TypeError w1
             | route0 # _ \<Rightarrow>
                 (case legs route0 of
                    [] \<Rightarrow> route_catch TypeError w1
                  | leg0 # _ \<Rightarrow>
                      (let w2 = setDirections (map toRouteStep (steps leg0)) w1 in
                       case geometry route0 of
                         None \<Rightarrow> route_catch TypeError w2
                       | Some g \<Rightarrow>
                           (Some (map (\<lambda>coord. (snd coord, fst coord)) (coordinates g)),
                            w2)))))"

subsection \<open>\<open>updateRoute\<close> (lines 89 to 144) and \<open>RouteMap\<close>\<close>

text \<open>
  The calls into the map library (\<open>addTo\<close>, \<open>bindPopup\<close>, \<open>fitBounds\<close>,
  \<open>distance\<close>) are taken to return normally; \<open>fitBounds\<close> is recorded as the
  viewport fitted to the points of the polyline with its padding.
\<close>

text \<open>
  The \<open>reduce\<close> of lines 124 to 127: \<open>total_acc\<close> is the accumulator \<open>total\<close>, \<open>i\<close> the index of
  \<open>coord\<close> in the whole array \<open>routeCoordinates\<close>, and \<open>map_distance\<close> the
  \<open>map.distance\<close> of the map library.
\<close>

fun reduce_distance ::
  "(latlng \<Rightarrow> latlng \<Rightarrow> real) \<Rightarrow> latlng list \<Rightarrow> real \<Rightarrow> nat \<Rightarrow> latlng list \<Rightarrow> real" where
  "reduce_distance map_distance routeCoordinates total_acc i [] = total_acc"
| "reduce_distance map_distance routeCoordinates total_acc i (coord # rest) =
     reduce_distance map_distance routeCoordinates
       (if i = 0 then 0 else total_acc + map_distance (routeCoordinates ! (i - 1)) coord)
       (Suc i) rest"

definition route_distance :: "(latlng \<Rightarrow> latlng \<Rightarrow> real) \<Rightarrow> latlng list \<Rightarrow> real" where
  "route_distance map_distance routeCoordinates =
     reduce_distance map_distance routeCoordinates 0 0 routeCoordinates"

definition airports :: "(string \<times> latlng) list" where
  "airports = [(''DFW'', (32.8998, - 97.0403)), (''DAL'', (32.8481, - 96.8512))]"

definition airport_markers :: "layer list" where
  "airport_markers =
     map (\<lambda>airport. Marker (snd airport) airportIcon (fst airport @ '' Airport'')) airports"

definition is_route_layer :: "layer \<Rightarrow> bool" where
  "is_route_layer l = (case l of Marker _ _ _ \<Rightarrow> True | Polyline _ _ _ \<Rightarrow> True | OtherLayer _ \<Rightarrow> False)"

definition clear_route_layers :: "world \<Rightarrow> world" where
  "clear_route_layers w = w\<lparr>layers := filter (\<lambda>l. \<not> is_route_layer l) (layers w)\<rparr>"

definition draw_route ::
  "(latlng \<Rightarrow> latlng \<Rightarrow> real) \<Rightarrow> string \<Rightarrow> string \<Rightarrow> Coordinates \<Rightarrow> Coordinates \<Rightarrow>
   latlng list \<Rightarrow> world \<Rightarrow> world" where
  "draw_route map_distance fromA toA fromCoords toCoords routeCoordinates w =
     (let w1 = addTo (Marker (lat fromCoords, lng fromCoords) DefaultIcon (''Start: '' @ fromA)) w;
          w2 = addTo (Marker (lat toCoords, lng toCoords) DefaultIcon (''End: '' @ toA)) w1;
          w3 = addTo (Polyline routeCoordinates ''#2196F3'' 5) w2;
          w4 = w3\<lparr>view := FitBounds routeCoordinates (50, 50)\<rparr>
      in if route_distance map_distance routeCoordinates > 100000
         then w4\<lparr>layers := layers w4 @ airport_markers\<rparr>
         else w4)"

definition updateRoute ::
  "(string \<Rightarrow> real) \<Rightarrow> (latlng \<Rightarrow> latlng \<Rightarrow> real) \<Rightarrow> string \<Rightarrow> string \<Rightarrow>
   geo_response \<Rightarrow> geo_response \<Rightarrow> route_response \<Rightarrow> world \<Rightarrow> world" where
  "updateRoute parseFloat map_distance fromA toA fromResp toResp routeResp w =
     (case getCoordinates parseFloat fromA fromResp w of
        (fromCoords, w1) \<Rightarrow>
          (case getCoordinates parseFloat toA toResp w1 of
             (toCoords, w2) \<Rightarrow>
               (case (fromCoords, toCoords) of
                  (Some fc, Some tc) \<Rightarrow>
                    (case getRoute fc tc routeResp (clear_route_layers w2) of
                       (None, w3) \<Rightarrow> w3
                     | (Some routeCoordinates, w3) \<Rightarrow>
                         draw_route map_distance fromA toA fc tc routeCoordinates w3)
                | _ \<Rightarrow> w2)))"

text \<open>
  The component \<open>RouteMap\<close> (line 146) with the props that \<open>App\<close> gives it:
  \<open>from = origin\<close> and \<open>to = destination\<close>.
\<close>

definition RouteMap ::
  "(string \<Rightarrow> real) \<Rightarrow> (latlng \<Rightarrow> latlng \<Rightarrow> real) \<Rightarrow>
   geo_response \<Rightarrow> geo_response \<Rightarrow> route_response \<Rightarrow> world \<Rightarrow> world" where
  "RouteMap parseFloat map_distance fromResp toResp routeResp w =
     (if origin w \<noteq> [] \<and> destination w \<noteq> []
      then updateRoute parseFloat map_distance (origin w) (destination w)
             fromResp toResp routeResp w
      else w)"

subsection \<open>The directions tab of \<open>App\<close> (lines 159 to 175 and 261 to 282)\<close>

text \<open>
  \<open>TabPanel\<close> renders its children only when \<open>value === index\<close>; the first
  component is the attribute \<open>hidden\<close>.
\<close>

definition TabPanel :: "nat \<Rightarrow> nat \<Rightarrow> 'a \<Rightarrow> bool \<times> 'a option" where
  "TabPanel tab_value index children =
     (tab_value \<noteq> index, if tab_value = index then Some children else None)"

record ListItem =
  item_key :: nat
  divider :: bool
  primary :: string
  secondary :: string

datatype directions_view = ListView "ListItem list" | Prompt string

text \<open>
  \<open>number_text\<close> is the conversion of a number to a string that the template
  literal of line 269 applies.
\<close>

definition directions_list :: "(int \<Rightarrow> string) \<Rightarrow> RouteStep list \<Rightarrow> ListItem list" where
  "directions_list number_text ds =
     map (\<lambda>(index, step).
            \<lparr>item_key = index,
             divider = (int index \<noteq> int (length ds) - 1),
             primary = instruction step,
             secondary = number_text (distance step) @ '' meters''\<rparr>)
         (enumerate 0 ds)"

definition directions_panel :: "(int \<Rightarrow> string) \<Rightarrow> RouteStep list \<Rightarrow> directions_view" where
  "directions_panel number_text ds =
     (if length ds > 0 then ListView (directions_list number_text ds)
      else Prompt (''Enter a destination and click '' @ [CHR 0x22] @ ''Get Directions''
                   @ [CHR 0x22] @ '' to see turn-by-turn directions''))"

definition directions_tab :: "(int \<Rightarrow> string) \<Rightarrow> world \<Rightarrow> bool \<times> directions_view option" where
  "directions_tab number_text w =
     TabPanel (tabValue w) 1 (directions_panel number_text (directions w))"

subsection \<open>The initial state and the events of the application\<close>

definition initial_world :: world where
  "initial_world =
     \<lparr>origin = [], destination = [], error = None, directions = [], tabValue = 0,
      layers = [OtherLayer ''TileLayer''], view = InitialView (40.7128, - 74.0060) 13,
      trace = []\<rparr>"

text \<open>
  The answers of the network to one run of \<open>updateRoute\<close>: the two geocoding answers
  and the routing answer (read only when the request is made). \<open>resolve\<close> is one
  render of \<open>RouteMap\<close>; \<open>App\<close> renders it inside the panel of the map tab only,
  so a render in any state covers the renders that happen.
\<close>

record answers =
  from_answer :: geo_response
  to_answer :: geo_response
  route_answer :: route_response

definition resolve ::
  "(string \<Rightarrow> real) \<Rightarrow> (latlng \<Rightarrow> latlng \<Rightarrow> real) \<Rightarrow> answers \<Rightarrow> world \<Rightarrow> world" where
  "resolve parseFloat map_distance a w =
     RouteMap parseFloat map_distance (from_answer a) (to_answer a) (route_answer a) w"

datatype action =
    TypeOrigin string
  | TypeDestination string
  | Submit
  | SelectTab nat
  | Resolve answers

fun step :: "(string \<Rightarrow> real) \<Rightarrow> (latlng \<Rightarrow> latlng \<Rightarrow> real) \<Rightarrow> action \<Rightarrow> world \<Rightarrow> world" where
  "step parseFloat map_distance (TypeOrigin v) w = setOrigin v w"
| "step parseFloat map_distance (TypeDestination v) w = setDestination v w"
| "step parseFloat map_distance Submit w = handleSubmit w"
| "step parseFloat map_distance (SelectTab t) w = handleTabChange t w"
| "step parseFloat map_distance (Resolve a) w = resolve parseFloat map_distance a w"

section \<open>Observations used in the statements\<close>

text \<open>The network requests of a trace, in order.\<close>

fun requests_of :: "event list \<Rightarrow> request list" where
  "requests_of [] = []"
| "requests_of (Fetch r # es) = r # requests_of es"
| "requests_of (_ # es) = requests_of es"

text \<open>The lists written by \<open>setDirections\<close> in a trace, in order.\<close>

fun directions_written :: "event list \<Rightarrow> RouteStep list list" where
  "directions_written [] = []"
| "directions_written (SetDirections ds # es) = ds # directions_written es"
| "directions_written (_ # es) = directions_written es"

text \<open>The message that the banner shows after the \<open>setError\<close> calls of a trace.\<close>

fun surfaced :: "string option \<Rightarrow> event list \<Rightarrow> string option" where
  "surfaced e [] = e"
| "surfaced e (SetError e' # es) = surfaced e' es"
| "surfaced e (_ # es) = surfaced e es"

text \<open>
  The answers on which the calls succeed: \<open>data && data[0]\<close> for the geocoder; for the
  router the status \<open>Ok\<close>, a first route with a first leg whose steps are all mapped
  (\<open>first_leg\<close>: lines 69 to 77 do not throw and \<open>setDirections\<close> is reached) and, for the
  whole call, the geometry.
\<close>

definition geo_found :: "geo_response \<Rightarrow> bool" where
  "geo_found resp = (case resp of GeoResults (_ # _) \<Rightarrow> True | _ \<Rightarrow> False)"

definition first_leg :: "route_response \<Rightarrow> Leg option" where
  "first_leg resp =
     (case resp of
        RouteTransportError \<Rightarrow> None
      | RouteStepWithoutManeuver \<Rightarrow> None
      | RouteData data \<Rightarrow>
          if code data = ''Ok''
          then (case routes data of
                  [] \<Rightarrow> None
                | route0 # _ \<Rightarrow> (case legs route0 of [] \<Rightarrow> None | leg0 # _ \<Rightarrow> Some leg0))
          else None)"

definition first_geometry :: "route_response \<Rightarrow> Geometry option" where
  "first_geometry resp =
     (case resp of
        RouteTransportError \<Rightarrow> None
      | RouteStepWithoutManeuver \<Rightarrow> None
      | RouteData data \<Rightarrow>
          if code data = ''Ok''
          then (case routes data of [] \<Rightarrow> None | route0 # _ \<Rightarrow> geometry route0)
          else None)"

definition route_found :: "route_response \<Rightarrow> bool" where
  "route_found resp = (first_leg resp \<noteq> None \<and> first_geometry resp \<noteq> None)"

text \<open>Layers of a given kind among the layers of the map.\<close>

fun polylines :: "layer list \<Rightarrow> latlng list list" where
  "polylines [] = []"
| "polylines (Polyline cs _ _ # ls) = cs # polylines ls"
| "polylines (_ # ls) = polylines ls"

fun airport_layers :: "layer list \<Rightarrow> layer list" where
  "airport_layers [] = []"
| "airport_layers (Marker p airportIcon popup # ls) = Marker p airportIcon popup # airport_layers ls"
| "airport_layers (_ # ls) = airport_layers ls"

fun markers :: "layer list \<Rightarrow> layer list" where
  "markers [] = []"
| "markers (Marker p i popup # ls) = Marker p i popup # markers ls"
| "markers (_ # ls) = markers ls"

text \<open>The values given to \<open>setError\<close> in a trace, in order.\<close>

fun errors_set :: "event list \<Rightarrow> string option list" where
  "errors_set [] = []"
| "errors_set (SetError e # es) = e # errors_set es"
| "errors_set (_ # es) = errors_set es"

text \<open>A run of the resolver succeeds when its three calls do.\<close>

definition resolved :: "answers \<Rightarrow> bool" where
  "resolved a = (geo_found (from_answer a) \<and> geo_found (to_answer a) \<and> route_found (route_answer a))"

text \<open>Runs of the resolver one after the other, each with its own answers.\<close>

fun resolve_all ::
  "(string \<Rightarrow> real) \<Rightarrow> (latlng \<Rightarrow> latlng \<Rightarrow> real) \<Rightarrow> answers list \<Rightarrow> world \<Rightarrow> world" where
  "resolve_all parseFloat map_distance [] w = w"
| "resolve_all parseFloat map_distance (a # as) w =
     resolve_all parseFloat map_distance as (resolve parseFloat map_distance a w)"

section \<open>Sample data\<close>

text \<open>
  The example of the specification: from Dallas to Fort Worth, a route of three steps.
  \<open>sample_parseFloat\<close> reads the four decimal strings of the two candidates, and
  \<open>flat_distance\<close> is a stand-in for the distance of the map library.
\<close>

definition dallas :: GeoResult where
  "dallas = \<lparr>result_lat = ''32.77'', result_lon = ''-96.79''\<rparr>"

definition fort_worth :: GeoResult where
  "fort_worth = \<lparr>result_lat = ''32.75'', result_lon = ''-97.33''\<rparr>"

definition sample_parseFloat :: "string \<Rightarrow> real" where
  "sample_parseFloat s =
     (if s = ''32.77'' then 32.77 else if s = ''-96.79'' then - 96.79
      else if s = ''32.75'' then 32.75 else if s = ''-97.33'' then - 97.33 else 0)"

definition flat_distance :: "latlng \<Rightarrow> latlng \<Rightarrow> real" where
  "flat_distance p q = 100000 * (\<bar>fst p - fst q\<bar> + \<bar>snd p - snd q\<bar>)"

definition sample_steps :: "Step list" where
  "sample_steps =
     [\<lparr>maneuver_instruction = None, step_name = ''Main St'', step_distance = 120.4\<rparr>,
      \<lparr>maneuver_instruction = Some ''Merge'', step_name = ''I 30'', step_distance = 51000.5\<rparr>,
      \<lparr>maneuver_instruction = Some [], step_name = ''Lamar St'', step_distance = 80\<rparr>]"

definition sample_geometry :: Geometry where
  "sample_geometry = \<lparr>coordinates = [(- 96.79, 32.77), (- 97, 32.76), (- 97.33, 32.75)]\<rparr>"

definition long_geometry :: Geometry where
  "long_geometry = \<lparr>coordinates = [(- 96.79, 32.77), (- 95.37, 29.76)]\<rparr>"

definition sample_payload :: RoutePayload where
  "sample_payload =
     \<lparr>code = ''Ok'',
      routes = [\<lparr>legs = [\<lparr>steps = sample_steps\<rparr>], geometry = Some sample_geometry\<rparr>]\<rparr>"

definition long_payload :: RoutePayload where
  "long_payload =
     \<lparr>code = ''Ok'',
      routes = [\<lparr>legs = [\<lparr>steps = sample_steps\<rparr>], geometry = Some long_geometry\<rparr>]\<rparr>"

definition no_geometry_payload :: RoutePayload where
  "no_geometry_payload =
     \<lparr>code = ''Ok'', routes = [\<lparr>legs = [\<lparr>steps = sample_steps\<rparr>], geometry = None\<rparr>]\<rparr>"

definition no_route_payload :: RoutePayload where
  "no_route_payload = \<lparr>code = ''NoRoute'', routes = []\<rparr>"

text \<open>
  A state in which an earlier run has drawn a route, filled the directions and left a
  message in the banner.
\<close>

definition earlier_world :: world where
  "earlier_world =
     \<lparr>origin = ''Dallas, TX'', destination = ''Fort Worth, TX'',
      error = Some location_message,
      directions = [\<lparr>instruction = ''Elm St'', distance = 7\<rparr>],
      tabValue = 0,
      layers = [OtherLayer ''TileLayer'', Marker (1, 2) DefaultIcon ''Start: A'',
                Marker (3, 4) DefaultIcon ''End: B'', Polyline [(1, 2), (3, 4)] ''#2196F3'' 5],
      view = FitBounds [(1, 2), (3, 4)] (50, 50),
      trace = []\<rparr>"

text \<open>Decimal notation of an integer, a sample for the conversion of line 269.\<close>

fun digits :: "nat \<Rightarrow> string" where
  "digits n =
     (if n < 10 then [''0123456789'' ! n]
      else digits (n div 10) @ [''0123456789'' ! (n mod 10)])"

declare digits.simps [simp del]

definition decimal_text :: "int \<Rightarrow> string" where
  "decimal_text i = (if i < 0 then ''-'' @ digits (nat (- i)) else digits (nat i))"

definition sample_answers :: answers where
  "sample_answers =
     \<lparr>from_answer = GeoResults [dallas], to_answer = GeoResults [fort_worth],
      route_answer = RouteData sample_payload\<rparr>"

section \<open>The outcomes of the calls\<close>

lemma geo_found_cases:
  "geo_found resp \<longleftrightarrow> (\<exists>r rs. resp = GeoResults (r # rs))"
  by (cases resp) (simp_all add: geo_found_def split: list.split)

lemma not_geo_found_cases:
  "\<not> geo_found resp \<longleftrightarrow> resp = GeoTransportError \<or> resp = GeoResults []"
  by (cases resp) (simp_all add: geo_found_def split: list.split)

lemma getCoordinates_first:
  "getCoordinates pf a (GeoResults (r # rs)) w =
     (Some \<lparr>lat = pf (result_lat r), lng = pf (result_lon r)\<rparr>,
      w\<lparr>trace := trace w @ [Fetch (GeocodeRequest a)]\<rparr>)"
  by (simp add: Let_def getCoordinates_def geocode_try_def fetch_def)

lemma getCoordinates_transport:
  "getCoordinates pf a GeoTransportError w =
     (None,
      w\<lparr>error := Some location_message,
        trace := trace w @
          [Fetch (GeocodeRequest a), ConsoleError coordinates_log NetworkError,
           SetError (Some location_message)]\<rparr>)"
  by (simp add: Let_def getCoordinates_def geocode_try_def fetch_def
      setError_def console_error_def)

lemma getCoordinates_empty:
  "getCoordinates pf a (GeoResults []) w =
     (None,
      w\<lparr>error := Some location_message,
        trace := trace w @
          [Fetch (GeocodeRequest a), ConsoleError coordinates_log (Error ''Location not found''),
           SetError (Some location_message)]\<rparr>)"
  by (simp add: Let_def getCoordinates_def geocode_try_def fetch_def
      setError_def console_error_def)

lemma route_catch_eq:
  "route_catch e w =
     (None, w\<lparr>error := Some route_message,
               trace := trace w @ [ConsoleError route_log e, SetError (Some route_message)]\<rparr>)"
  by (simp add: route_catch_def setError_def console_error_def)

lemma getRoute_no_leg:
  assumes "first_leg resp = None"
  shows "\<exists>e. getRoute s f resp w =
     (None,
      w\<lparr>error := Some route_message,
        trace := trace w @
          [Fetch (RouteRequest s f), ConsoleError route_log e,
           SetError (Some route_message)]\<rparr>)"
proof (cases resp)
  case RouteTransportError
  then show ?thesis
    by (intro exI [of _ NetworkError]) (simp add: getRoute_def Let_def route_catch_eq fetch_def)
next
  case RouteStepWithoutManeuver
  then show ?thesis
    by (intro exI [of _ TypeError]) (simp add: getRoute_def Let_def route_catch_eq fetch_def)
next
  case (RouteData data)
  show ?thesis
  proof (cases "code data = ''Ok''")
    case False
    with RouteData show ?thesis
      by (intro exI [of _ "Error ''Route not found''"])
        (simp add: getRoute_def Let_def route_catch_eq fetch_def)
  next
    case ok: True
    show ?thesis
    proof (cases "routes data")
      case Nil
      with RouteData ok show ?thesis
        by (intro exI [of _ TypeError]) (simp add: getRoute_def Let_def route_catch_eq fetch_def)
    next
      case (Cons route0 rest)
      with assms RouteData ok have "legs route0 = []"
        by (simp add: first_leg_def split: list.splits)
      with RouteData ok Cons show ?thesis
        by (intro exI [of _ TypeError]) (simp add: getRoute_def Let_def route_catch_eq fetch_def)
    qed
  qed
qed


lemma first_leg_SomeD:
  assumes "first_leg resp = Some leg0"
  obtains data route0 rest legs_rest where
    "resp = RouteData data" "code data = ''Ok''" "routes data = route0 # rest"
    "legs route0 = leg0 # legs_rest" "first_geometry resp = geometry route0"
proof (cases resp)
  case RouteTransportError
  with assms show ?thesis by (simp add: first_leg_def)
next
  case RouteStepWithoutManeuver
  with assms show ?thesis by (simp add: first_leg_def)
next
  case (RouteData data)
  with assms have ok: "code data = ''Ok''"
    by (simp add: first_leg_def split: if_splits)
  with assms RouteData obtain route0 rest where r: "routes data = route0 # rest"
    by (cases "routes data") (simp_all add: first_leg_def)
  with assms RouteData ok obtain legs_rest where "legs route0 = leg0 # legs_rest"
    by (cases "legs route0") (simp_all add: first_leg_def)
  with RouteData ok r that show ?thesis
    by (simp add: first_geometry_def)
qed

lemma getRoute_no_geometry:
  assumes "first_leg resp = Some leg0" and "first_geometry resp = None"
  shows "getRoute s f resp w =
     (None,
      w\<lparr>error := Some route_message,
        directions := map toRouteStep (steps leg0),
        trace := trace w @
          [Fetch (RouteRequest s f), SetDirections (map toRouteStep (steps leg0)),
           ConsoleError route_log TypeError, SetError (Some route_message)]\<rparr>)"
proof -
  from assms(1) obtain data route0 rest legs_rest where
    "resp = RouteData data" "code data = ''Ok''" "routes data = route0 # rest"
    "legs route0 = leg0 # legs_rest" "first_geometry resp = geometry route0"
    by (rule first_leg_SomeD)
  moreover from this assms(2) have "geometry route0 = None"
    by simp
  ultimately show ?thesis
    by (simp add: getRoute_def Let_def route_catch_eq fetch_def setDirections_def)
qed

lemma getRoute_found:
  assumes "first_leg resp = Some leg0" and "first_geometry resp = Some g"
  shows "getRoute s f resp w =
     (Some (map (\<lambda>coord. (snd coord, fst coord)) (coordinates g)),
      w\<lparr>directions := map toRouteStep (steps leg0),
        trace := trace w @
          [Fetch (RouteRequest s f), SetDirections (map toRouteStep (steps leg0))]\<rparr>)"
proof -
  from assms(1) obtain data route0 rest legs_rest where
    "resp = RouteData data" "code data = ''Ok''" "routes data = route0 # rest"
    "legs route0 = leg0 # legs_rest" "first_geometry resp = geometry route0"
    by (rule first_leg_SomeD)
  moreover from this assms(2) have "geometry route0 = Some g"
    by simp
  ultimately show ?thesis
    by (simp add: getRoute_def Let_def fetch_def setDirections_def)
qed


lemma getCoordinates_not_found:
  assumes "\<not> geo_found resp"
  shows "\<exists>e. getCoordinates pf a resp w =
     (None,
      w\<lparr>error := Some location_message,
        trace := trace w @
          [Fetch (GeocodeRequest a), ConsoleError coordinates_log e,
           SetError (Some location_message)]\<rparr>)"
proof -
  from assms consider "resp = GeoTransportError" | "resp = GeoResults []"
    by (auto simp: not_geo_found_cases)
  then show ?thesis
  proof cases
    case 1
    then show ?thesis
      by (intro exI [of _ NetworkError]) (simp add: getCoordinates_transport)
  next
    case 2
    then show ?thesis
      by (intro exI [of _ "Error ''Location not found''"]) (simp add: getCoordinates_empty)
  qed
qed


lemma updateRoute_destination_failed:
  assumes "\<not> geo_found toResp"
  shows "\<exists>e. updateRoute pf d a b fromResp toResp rr w =
     (snd (getCoordinates pf a fromResp w))
       \<lparr>error := Some location_message,
        trace := trace (snd (getCoordinates pf a fromResp w)) @
          [Fetch (GeocodeRequest b), ConsoleError coordinates_log e,
           SetError (Some location_message)]\<rparr>"
proof -
  obtain fc w1 where g1: "getCoordinates pf a fromResp w = (fc, w1)"
    by (cases "getCoordinates pf a fromResp w")
  from getCoordinates_not_found [OF assms] obtain e where
    "getCoordinates pf b toResp w1 =
       (None,
        w1\<lparr>error := Some location_message,
          trace := trace w1 @
            [Fetch (GeocodeRequest b), ConsoleError coordinates_log e,
             SetError (Some location_message)]\<rparr>)"
    by blast
  with g1 show ?thesis
    by (intro exI [of _ e]) (simp add: updateRoute_def split: option.split)
qed

lemma updateRoute_geocoded:
  "updateRoute pf d a b (GeoResults (rf # rfs)) (GeoResults (rt # rts)) rr w =
     (case getRoute \<lparr>lat = pf (result_lat rf), lng = pf (result_lon rf)\<rparr>
             \<lparr>lat = pf (result_lat rt), lng = pf (result_lon rt)\<rparr> rr
             (w\<lparr>trace := trace w @ [Fetch (GeocodeRequest a), Fetch (GeocodeRequest b)],
                layers := filter (\<lambda>l. \<not> is_route_layer l) (layers w)\<rparr>) of
        (None, w3) \<Rightarrow> w3
      | (Some routeCoordinates, w3) \<Rightarrow>
          draw_route d a b \<lparr>lat = pf (result_lat rf), lng = pf (result_lon rf)\<rparr>
            \<lparr>lat = pf (result_lat rt), lng = pf (result_lon rt)\<rparr> routeCoordinates w3)"
  by (simp add: updateRoute_def getCoordinates_first clear_route_layers_def)

lemma draw_route_eq:
  "draw_route d a b fc tc cs w =
     w\<lparr>layers := layers w @
          [Marker (lat fc, lng fc) DefaultIcon (''Start: '' @ a),
           Marker (lat tc, lng tc) DefaultIcon (''End: '' @ b),
           Polyline cs ''#2196F3'' 5] @
          (if route_distance d cs > 100000 then airport_markers else []),
        view := FitBounds cs (50, 50)\<rparr>"
  by (simp add: draw_route_def Let_def addTo_def)


lemma updateRoute_no_leg:
  assumes "first_leg rr = None"
  shows "\<exists>e. updateRoute pf d a b (GeoResults (rf # rfs)) (GeoResults (rt # rts)) rr w =
     w\<lparr>error := Some route_message,
       layers := filter (\<lambda>l. \<not> is_route_layer l) (layers w),
       trace := trace w @
         [Fetch (GeocodeRequest a), Fetch (GeocodeRequest b),
          Fetch (RouteRequest \<lparr>lat = pf (result_lat rf), lng = pf (result_lon rf)\<rparr>
                   \<lparr>lat = pf (result_lat rt), lng = pf (result_lon rt)\<rparr>),
          ConsoleError route_log e, SetError (Some route_message)]\<rparr>"
proof -
  let ?w = "w\<lparr>trace := trace w @ [Fetch (GeocodeRequest a), Fetch (GeocodeRequest b)],
              layers := filter (\<lambda>l. \<not> is_route_layer l) (layers w)\<rparr>"
  let ?s = "\<lparr>lat = pf (result_lat rf), lng = pf (result_lon rf)\<rparr>"
  let ?f = "\<lparr>lat = pf (result_lat rt), lng = pf (result_lon rt)\<rparr>"
  from getRoute_no_leg [OF assms, of ?s ?f ?w] obtain e where
    "getRoute ?s ?f rr ?w =
       (None,
        ?w\<lparr>error := Some route_message,
          trace := trace ?w @
            [Fetch (RouteRequest ?s ?f), ConsoleError route_log e,
             SetError (Some route_message)]\<rparr>)"
    by blast
  then show ?thesis
    by (intro exI [of _ e]) (simp add: updateRoute_geocoded)
qed

lemma updateRoute_no_geometry:
  assumes "first_leg rr = Some leg0" and "first_geometry rr = None"
  shows "updateRoute pf d a b (GeoResults (rf # rfs)) (GeoResults (rt # rts)) rr w =
     w\<lparr>error := Some route_message,
       directions := map toRouteStep (steps leg0),
       layers := filter (\<lambda>l. \<not> is_route_layer l) (layers w),
       trace := trace w @
         [Fetch (GeocodeRequest a), Fetch (GeocodeRequest b),
          Fetch (RouteRequest \<lparr>lat = pf (result_lat rf), lng = pf (result_lon rf)\<rparr>
                   \<lparr>lat = pf (result_lat rt), lng = pf (result_lon rt)\<rparr>),
          SetDirections (map toRouteStep (steps leg0)),
          ConsoleError route_log TypeError, SetError (Some route_message)]\<rparr>"
  by (simp add: updateRoute_geocoded getRoute_no_geometry [OF assms])

lemma updateRoute_found:
  assumes "first_leg rr = Some leg0" and "first_geometry rr = Some g"
  shows "updateRoute pf d a b (GeoResults (rf # rfs)) (GeoResults (rt # rts)) rr w =
     w\<lparr>directions := map toRouteStep (steps leg0),
       layers := filter (\<lambda>l. \<not> is_route_layer l) (layers w) @
         [Marker (pf (result_lat rf), pf (result_lon rf)) DefaultIcon (''Start: '' @ a),
          Marker (pf (result_lat rt), pf (result_lon rt)) DefaultIcon (''End: '' @ b),
          Polyline (map (\<lambda>coord. (snd coord, fst coord)) (coordinates g)) ''#2196F3'' 5] @
         (if route_distance d (map (\<lambda>coord. (snd coord, fst coord)) (coordinates g)) > 100000
          then airport_markers else []),
       view := FitBounds (map (\<lambda>coord. (snd coord, fst coord)) (coordinates g)) (50, 50),
       trace := trace w @
         [Fetch (GeocodeRequest a), Fetch (GeocodeRequest b),
          Fetch (RouteRequest \<lparr>lat = pf (result_lat rf), lng = pf (result_lon rf)\<rparr>
                   \<lparr>lat = pf (result_lat rt), lng = pf (result_lon rt)\<rparr>),
          SetDirections (map toRouteStep (steps leg0))]\<rparr>"
  by (simp add: updateRoute_geocoded getRoute_found [OF assms] draw_route_eq)

lemma requests_of_append: "requests_of (xs @ ys) = requests_of xs @ requests_of ys"
  by (induction xs rule: requests_of.induct) simp_all

lemma directions_written_append:
  "directions_written (xs @ ys) = directions_written xs @ directions_written ys"
  by (induction xs rule: directions_written.induct) simp_all


lemma reduce_distance_from:
  "0 < i \<Longrightarrow>
   reduce_distance d cs acc i (drop i cs) =
     acc + (\<Sum>k = i..<length cs. d (cs ! (k - 1)) (cs ! k))"
proof (induction "length cs - i" arbitrary: i acc)
  case 0
  then show ?case by simp
next
  case (Suc n)
  then have less: "i < length cs" by simp
  then have unfold: "drop i cs = cs ! i # drop (Suc i) cs"
    by (simp add: Cons_nth_drop_Suc)
  from Suc.hyps(2) have "n = length cs - Suc i" by simp
  then have "reduce_distance d cs (acc + d (cs ! (i - 1)) (cs ! i)) (Suc i) (drop (Suc i) cs) =
      acc + d (cs ! (i - 1)) (cs ! i) + (\<Sum>k = Suc i..<length cs. d (cs ! (k - 1)) (cs ! k))"
    by (intro Suc.hyps(1)) simp_all
  with Suc.prems less show ?case
    by (simp add: unfold sum.atLeast_Suc_lessThan)
qed

lemma route_distance_sum:
  "route_distance d cs = (\<Sum>k = 1..<length cs. d (cs ! (k - 1)) (cs ! k))"
proof (cases cs)
  case Nil
  then show ?thesis by (simp add: route_distance_def)
next
  case (Cons c rest)
  have "reduce_distance d cs 0 1 (drop 1 cs) =
      0 + (\<Sum>k = 1..<length cs. d (cs ! (k - 1)) (cs ! k))"
    by (rule reduce_distance_from) simp
  with Cons show ?thesis by (simp add: route_distance_def)
qed

lemma Math_round_bounds: "x - 1 / 2 < of_int (Math_round x)" "of_int (Math_round x) \<le> x + 1 / 2"
  unfolding Math_round_def by linarith+

lemma Math_round_nearest: "\<bar>of_int (Math_round x) - x\<bar> \<le> \<bar>of_int k - x\<bar>"
proof -
  consider "k \<le> Math_round x - 1" | "k = Math_round x" | "Math_round x + 1 \<le> k"
    by linarith
  then show ?thesis
  proof cases
    case 1
    then have "(of_int k :: real) \<le> of_int (Math_round x) - 1"
      by (metis of_int_1 of_int_diff of_int_le_iff)
    with Math_round_bounds [of x] show ?thesis by linarith
  next
    case 2
    then show ?thesis by simp
  next
    case 3
    then have "(of_int (Math_round x) :: real) + 1 \<le> of_int k"
      by (metis of_int_1 of_int_add of_int_le_iff)
    with Math_round_bounds [of x] show ?thesis by linarith
  qed
qed

lemma length_directions_list: "length (directions_list nt ds) = length ds"
  by (simp add: directions_list_def)

lemma nth_directions_list:
  "i < length ds \<Longrightarrow>
   directions_list nt ds ! i =
     \<lparr>item_key = i, divider = (int i \<noteq> int (length ds) - 1),
      primary = instruction (ds ! i), secondary = nt (distance (ds ! i)) @ '' meters''\<rparr>"
  by (simp add: directions_list_def nth_enumerate_eq)

lemma polylines_append: "polylines (xs @ ys) = polylines xs @ polylines ys"
  by (induction xs rule: polylines.induct) simp_all

lemma airport_layers_append: "airport_layers (xs @ ys) = airport_layers xs @ airport_layers ys"
  by (induction xs rule: airport_layers.induct) simp_all

lemma markers_append: "markers (xs @ ys) = markers xs @ markers ys"
  by (induction xs rule: markers.induct) simp_all

lemma polylines_cleared: "polylines (filter (\<lambda>l. \<not> is_route_layer l) ls) = []"
  by (induction ls rule: polylines.induct) (simp_all add: is_route_layer_def)

lemma markers_cleared: "markers (filter (\<lambda>l. \<not> is_route_layer l) ls) = []"
  by (induction ls rule: markers.induct) (simp_all add: is_route_layer_def)

lemma airport_layers_cleared: "airport_layers (filter (\<lambda>l. \<not> is_route_layer l) ls) = []"
  by (induction ls rule: airport_layers.induct) (simp_all add: is_route_layer_def)

lemma airport_layers_airport_markers: "airport_layers airport_markers = airport_markers"
  by (simp add: airport_markers_def airports_def)

lemma polylines_airport_markers: "polylines airport_markers = []"
  by (simp add: airport_markers_def airports_def)

lemma digits_below_ten: "n < 10 \<Longrightarrow> digits n = [''0123456789'' ! n]"
  by (subst digits.simps) simp

lemma digits_from_ten:
  "10 \<le> n \<Longrightarrow> digits n = digits (n div 10) @ [''0123456789'' ! (n mod 10)]"
  by (subst digits.simps) simp

lemma fst_getCoordinates_None: "fst (getCoordinates pf a resp w) = None \<longleftrightarrow> \<not> geo_found resp"
proof (cases "geo_found resp")
  case True
  then obtain r rs where "resp = GeoResults (r # rs)"
    by (auto simp: geo_found_cases)
  with True show ?thesis by (simp add: getCoordinates_first)
next
  case False
  from getCoordinates_not_found [OF this, of pf a w] False show ?thesis by auto
qed

lemma getCoordinates_frame:
  "layers (snd (getCoordinates pf a resp w)) = layers w"
  "view (snd (getCoordinates pf a resp w)) = view w"
  "directions (snd (getCoordinates pf a resp w)) = directions w"
  "requests_of (trace (snd (getCoordinates pf a resp w))) =
     requests_of (trace w) @ [GeocodeRequest a]"
  "directions_written (trace (snd (getCoordinates pf a resp w))) = directions_written (trace w)"
  "error (snd (getCoordinates pf a resp w)) =
     (if geo_found resp then error w else Some location_message)"
proof -
  show "layers (snd (getCoordinates pf a resp w)) = layers w"
    "view (snd (getCoordinates pf a resp w)) = view w"
    "directions (snd (getCoordinates pf a resp w)) = directions w"
    by (simp_all add: getCoordinates_def Let_def fetch_def setError_def console_error_def
        split: sum.split)
  show "requests_of (trace (snd (getCoordinates pf a resp w))) =
     requests_of (trace w) @ [GeocodeRequest a]"
    "directions_written (trace (snd (getCoordinates pf a resp w))) = directions_written (trace w)"
    by (simp_all add: getCoordinates_def Let_def fetch_def setError_def console_error_def
        requests_of_append directions_written_append split: sum.split)
  show "error (snd (getCoordinates pf a resp w)) =
     (if geo_found resp then error w else Some location_message)"
  proof (cases "geo_found resp")
    case True
    then obtain r rs where "resp = GeoResults (r # rs)"
      by (auto simp: geo_found_cases)
    with True show ?thesis by (simp add: getCoordinates_first)
  next
    case False
    from getCoordinates_not_found [OF this, of pf a w] False show ?thesis by auto
  qed
qed

lemma updateRoute_geocode_failed:
  assumes "\<not> geo_found fromResp \<or> \<not> geo_found toResp"
  shows "updateRoute pf d a b fromResp toResp rr w =
    snd (getCoordinates pf b toResp (snd (getCoordinates pf a fromResp w)))"
proof -
  obtain fc w1 where g1: "getCoordinates pf a fromResp w = (fc, w1)"
    by (cases "getCoordinates pf a fromResp w")
  obtain tc w2 where g2: "getCoordinates pf b toResp w1 = (tc, w2)"
    by (cases "getCoordinates pf b toResp w1")
  from assms g1 g2 have "fc = None \<or> tc = None"
    using fst_getCoordinates_None [of pf a fromResp w] fst_getCoordinates_None [of pf b toResp w1]
    by auto
  with g1 g2 show ?thesis
    by (auto simp: updateRoute_def split: option.split)
qed

lemma first_leg_not_ok: "code data \<noteq> ''Ok'' \<Longrightarrow> first_leg (RouteData data) = None"
  by (simp add: first_leg_def)

lemma errors_set_append: "errors_set (xs @ ys) = errors_set xs @ errors_set ys"
  by (induction xs rule: errors_set.induct) simp_all

text \<open>The trace that one call of getCoordinates adds.\<close>

lemma getCoordinates_trace:
  "\<exists>es. trace (snd (getCoordinates pf a resp w)) = trace w @ Fetch (GeocodeRequest a) # es \<and>
        error (snd (getCoordinates pf a resp w)) = surfaced (error w) es \<and>
        (if geo_found resp then es = []
         else \<exists>e. es = [ConsoleError coordinates_log e, SetError (Some location_message)])"
proof (cases "geo_found resp")
  case True
  then obtain r rs where "resp = GeoResults (r # rs)"
    by (auto simp: geo_found_cases)
  with True show ?thesis
    by (simp add: getCoordinates_first)
next
  case False
  from getCoordinates_not_found [OF this, of pf a w] obtain e where
    "getCoordinates pf a resp w =
     (None,
      w\<lparr>error := Some location_message,
        trace := trace w @
          [Fetch (GeocodeRequest a), ConsoleError coordinates_log e,
           SetError (Some location_message)]\<rparr>)"
    by blast
  with False show ?thesis
    by (intro exI [of _ "[ConsoleError coordinates_log e, SetError (Some location_message)]"])
      simp
qed

lemma getCoordinates_errors_set:
  "errors_set (trace (snd (getCoordinates pf a resp w))) =
     errors_set (trace w) @ (if geo_found resp then [] else [Some location_message])"
proof -
  from getCoordinates_trace [of pf a resp w] obtain es where
    "trace (snd (getCoordinates pf a resp w)) = trace w @ Fetch (GeocodeRequest a) # es"
    "if geo_found resp then es = []
     else \<exists>e. es = [ConsoleError coordinates_log e, SetError (Some location_message)]"
    by blast
  then show ?thesis
    by (auto simp: errors_set_append split: if_splits)
qed


lemma error_updateRoute:
  "error (updateRoute pf d a b fromResp toResp rr w) =
     (if \<not> geo_found fromResp \<or> \<not> geo_found toResp then Some location_message
      else if route_found rr then error w else Some route_message)"
proof (cases "geo_found fromResp \<and> geo_found toResp")
  case False
  then have nf: "\<not> geo_found fromResp \<or> \<not> geo_found toResp" by simp
  then show ?thesis
    unfolding updateRoute_geocode_failed [OF nf]
    by (auto simp: getCoordinates_frame)
next
  case True
  then obtain rf rfs rt rts where
    resp: "fromResp = GeoResults (rf # rfs)" "toResp = GeoResults (rt # rts)"
    by (auto simp: geo_found_cases)
  show ?thesis
  proof (cases "first_leg rr")
    case None
    from updateRoute_no_leg [OF this, of pf d a b rf rfs rt rts w] True None show ?thesis
      unfolding resp by (auto simp: route_found_def)
  next
    case (Some leg0)
    show ?thesis
    proof (cases "first_geometry rr")
      case None
      with True Some show ?thesis
        unfolding resp updateRoute_no_geometry [OF Some None]
        by (simp add: route_found_def)
    next
      case g: (Some g)
      with True Some show ?thesis
        unfolding resp updateRoute_found [OF Some g]
        by (simp add: route_found_def)
    qed
  qed
qed

lemma directions_updateRoute:
  "directions (updateRoute pf d a b fromResp toResp rr w) =
     (if geo_found fromResp \<and> geo_found toResp
      then (case first_leg rr of None \<Rightarrow> directions w
            | Some leg0 \<Rightarrow> map toRouteStep (steps leg0))
      else directions w)"
  "directions_written (trace (updateRoute pf d a b fromResp toResp rr w)) =
     directions_written (trace w) @
     (if geo_found fromResp \<and> geo_found toResp
      then (case first_leg rr of None \<Rightarrow> []
            | Some leg0 \<Rightarrow> [map toRouteStep (steps leg0)])
      else [])"
  "errors_set (trace (updateRoute pf d a b fromResp toResp rr w)) =
     errors_set (trace w) @
     (if geo_found fromResp \<and> geo_found toResp
      then (if route_found rr then [] else [Some route_message])
      else (if geo_found fromResp then [] else [Some location_message]) @
           (if geo_found toResp then [] else [Some location_message]))"
proof -
  have "directions (updateRoute pf d a b fromResp toResp rr w) =
     (if geo_found fromResp \<and> geo_found toResp
      then (case first_leg rr of None \<Rightarrow> directions w
            | Some leg0 \<Rightarrow> map toRouteStep (steps leg0))
      else directions w) \<and>
    directions_written (trace (updateRoute pf d a b fromResp toResp rr w)) =
     directions_written (trace w) @
     (if geo_found fromResp \<and> geo_found toResp
      then (case first_leg rr of None \<Rightarrow> []
            | Some leg0 \<Rightarrow> [map toRouteStep (steps leg0)])
      else []) \<and>
    errors_set (trace (updateRoute pf d a b fromResp toResp rr w)) =
     errors_set (trace w) @
     (if geo_found fromResp \<and> geo_found toResp
      then (if route_found rr then [] else [Some route_message])
      else (if geo_found fromResp then [] else [Some location_message]) @
           (if geo_found toResp then [] else [Some location_message]))"
  proof (cases "geo_found fromResp \<and> geo_found toResp")
    case False
    then have nf: "\<not> geo_found fromResp \<or> \<not> geo_found toResp" by simp
    from False show ?thesis
      unfolding updateRoute_geocode_failed [OF nf]
      by (auto simp: getCoordinates_frame getCoordinates_errors_set)
  next
    case True
    then obtain rf rfs rt rts where
      resp: "fromResp = GeoResults (rf # rfs)" "toResp = GeoResults (rt # rts)"
      by (auto simp: geo_found_cases)
    show ?thesis
    proof (cases "first_leg rr")
      case None
      from updateRoute_no_leg [OF this, of pf d a b rf rfs rt rts w] True None show ?thesis
        unfolding resp
        by (auto simp: route_found_def directions_written_append errors_set_append)
    next
      case (Some leg0)
      show ?thesis
      proof (cases "first_geometry rr")
        case None
        with True Some show ?thesis
          unfolding resp updateRoute_no_geometry [OF Some None]
          by (simp add: route_found_def directions_written_append errors_set_append)
      next
        case g: (Some g)
        with True Some show ?thesis
          unfolding resp updateRoute_found [OF Some g]
          by (simp add: route_found_def directions_written_append errors_set_append)
      qed
    qed
  qed
  then show
    "directions (updateRoute pf d a b fromResp toResp rr w) =
     (if geo_found fromResp \<and> geo_found toResp
      then (case first_leg rr of None \<Rightarrow> directions w
            | Some leg0 \<Rightarrow> map toRouteStep (steps leg0))
      else directions w)"
    "directions_written (trace (updateRoute pf d a b fromResp toResp rr w)) =
     directions_written (trace w) @
     (if geo_found fromResp \<and> geo_found toResp
      then (case first_leg rr of None \<Rightarrow> []
            | Some leg0 \<Rightarrow> [map toRouteStep (steps leg0)])
      else [])"
    "errors_set (trace (updateRoute pf d a b fromResp toResp rr w)) =
     errors_set (trace w) @
     (if geo_found fromResp \<and> geo_found toResp
      then (if route_found rr then [] else [Some route_message])
      else (if geo_found fromResp then [] else [Some location_message]) @
           (if geo_found toResp then [] else [Some location_message]))"
    by blast+
qed

text \<open>What a run of the resolver does to the error.\<close>

lemma error_resolve_resolved:
  assumes "resolved a"
  shows "error (resolve pf d a w) = error w"
    and "errors_set (trace (resolve pf d a w)) = errors_set (trace w)"
  using assms
  by (simp_all add: resolve_def RouteMap_def resolved_def error_updateRoute
      directions_updateRoute(3))

lemma error_resolve_not_cleared:
  assumes "error w \<noteq> None"
  shows "error (resolve pf d a w) \<noteq> None"
  using assms
  by (simp add: resolve_def RouteMap_def error_updateRoute)

lemma error_resolve_all:
  "\<forall>a\<in>set as. resolved a \<Longrightarrow> error (resolve_all pf d as w) = error w"
  by (induction as arbitrary: w) (simp_all add: error_resolve_resolved(1))

section \<open>The claims\<close>

text \<open>
  C1. In every state, \<open>handleSubmit\<close> with an empty origin or an empty destination
  sets the error to the fixed message \<open>Please enter both origin and destination\<close> and
  does nothing else: no network request is made and the directions, the map and the
  other cells of the state stay as they are. With both fields filled it sets the error
  to null, and again makes no request and calls nothing of the resolver.
\<close>

theorem handleSubmit_error_only:
  "handleSubmit w =
     w\<lparr>error :=
         (if origin w = [] \<or> destination w = []
          then Some ''Please enter both origin and destination'' else None),
       trace := trace w @
         [SetError (if origin w = [] \<or> destination w = []
                    then Some ''Please enter both origin and destination'' else None)]\<rparr> \<and>
   requests_of (trace (handleSubmit w)) = requests_of (trace w) \<and>
   directions_written (trace (handleSubmit w)) = directions_written (trace w) \<and>
   directions (handleSubmit w) = directions w \<and>
   layers (handleSubmit w) = layers w \<and>
   view (handleSubmit w) = view w \<and>
   origin (handleSubmit w) = origin w \<and>
   destination (handleSubmit w) = destination w \<and>
   tabValue (handleSubmit w) = tabValue w"
  by (simp add: handleSubmit_def setError_def input_message_def requests_of_append
      directions_written_append)

text \<open>
  C2. For a routing answer that \<open>getRoute\<close> accepts (status \<open>Ok\<close>, a first route
  with a first leg and a geometry), the value returned, which \<open>updateRoute\<close> gives to
  the one polyline of the map, is the coordinate list of the geometry with every pair
  \<open>[lon, lat]\<close> turned into \<open>[lat, lon]\<close>; it has as many points as the payload.
\<close>

theorem route_coordinates_swapped:
  assumes "first_leg rr = Some leg0" and "first_geometry rr = Some g"
  shows "fst (getRoute s f rr w) = Some (map (\<lambda>(lon, lat). (lat, lon)) (coordinates g)) \<and>
         polylines (layers (updateRoute pf d a b (GeoResults (rf # rfs))
             (GeoResults (rt # rts)) rr w)) =
           [map (\<lambda>(lon, lat). (lat, lon)) (coordinates g)] \<and>
         length (map (\<lambda>(lon, lat). (lat, lon)) (coordinates g)) = length (coordinates g)"
proof -
  have swap: "(\<lambda>coord. (snd coord, fst coord)) = (\<lambda>(lon :: real, lat :: real). (lat, lon))"
    by (simp add: fun_eq_iff)
  show ?thesis
    by (simp add: getRoute_found [OF assms] updateRoute_found [OF assms] polylines_append
        polylines_cleared polylines_airport_markers swap)
qed

theorem route_coordinates_swapped_witness:
  "first_leg (RouteData sample_payload) = Some \<lparr>steps = sample_steps\<rparr> \<and>
   first_geometry (RouteData sample_payload) = Some sample_geometry \<and>
   coordinates sample_geometry = [(- 96.79, 32.77), (- 97, 32.76), (- 97.33, 32.75)] \<and>
   fst (getRoute \<lparr>lat = 32.77, lng = - 96.79\<rparr> \<lparr>lat = 32.75, lng = - 97.33\<rparr>
         (RouteData sample_payload) initial_world) =
     Some [(32.77, - 96.79), (32.76, - 97), (32.75, - 97.33)] \<and>
   polylines (layers (updateRoute sample_parseFloat flat_distance ''Dallas, TX''
       ''Fort Worth, TX'' (GeoResults [dallas]) (GeoResults [fort_worth])
       (RouteData sample_payload) initial_world)) =
     [[(32.77, - 96.79), (32.76, - 97), (32.75, - 97.33)]]"
proof -
  have leg: "first_leg (RouteData sample_payload) = Some \<lparr>steps = sample_steps\<rparr>"
    by (simp add: first_leg_def sample_payload_def)
  have geo: "first_geometry (RouteData sample_payload) = Some sample_geometry"
    by (simp add: first_geometry_def sample_payload_def)
  from leg geo route_coordinates_swapped [OF leg geo,
      of "\<lparr>lat = 32.77, lng = - 96.79\<rparr>" "\<lparr>lat = 32.75, lng = - 97.33\<rparr>" initial_world
        sample_parseFloat flat_distance "''Dallas, TX''" "''Fort Worth, TX''"
        dallas "[]" fort_worth "[]"]
  show ?thesis
    by (simp add: sample_geometry_def)
qed

text \<open>
  C3. For a resolved route, the distance computed by the \<open>reduce\<close> is the sum of the
  distances (\<open>map.distance\<close>) between consecutive points of the polyline. When this sum
  is above 100000, the airport markers on the map are exactly the two fixed ones, DFW and
  DAL, whatever the query; otherwise there is none. The layers of the map are then the
  earlier layers that are neither markers nor polylines, the start marker, the end
  marker, the polyline and these airport markers.
\<close>

theorem airports_by_route_distance:
  assumes "first_leg rr = Some leg0" and "first_geometry rr = Some g"
  shows "let cs = map (\<lambda>(lon, lat). (lat, lon)) (coordinates g);
             sum_d = (\<Sum>k = 1..<length cs. d (cs ! (k - 1)) (cs ! k));
             w' = updateRoute pf d a b (GeoResults (rf # rfs)) (GeoResults (rt # rts)) rr w
         in route_distance d cs = sum_d \<and>
            airport_layers (layers w') =
              (if sum_d > 100000
               then [Marker (32.8998, - 97.0403) airportIcon ''DFW Airport'',
                     Marker (32.8481, - 96.8512) airportIcon ''DAL Airport'']
               else []) \<and>
            layers w' =
              filter (\<lambda>l. \<not> is_route_layer l) (layers w) @
              [Marker (pf (result_lat rf), pf (result_lon rf)) DefaultIcon (''Start: '' @ a),
               Marker (pf (result_lat rt), pf (result_lon rt)) DefaultIcon (''End: '' @ b),
               Polyline cs ''#2196F3'' 5] @
              airport_layers (layers w')"
proof -
  have swap: "(\<lambda>coord. (snd coord, fst coord)) = (\<lambda>(lon :: real, lat :: real). (lat, lon))"
    by (simp add: fun_eq_iff)
  have markers: "airport_markers =
      [Marker (32.8998, - 97.0403) airportIcon ''DFW Airport'',
       Marker (32.8481, - 96.8512) airportIcon ''DAL Airport'']"
    by (simp add: airport_markers_def airports_def)
  define cs where "cs = map (\<lambda>(lon :: real, lat :: real). (lat, lon)) (coordinates g)"
  have rd: "route_distance d cs = (\<Sum>k = 1..<length cs. d (cs ! (k - 1)) (cs ! k))"
    by (rule route_distance_sum)
  note upd = updateRoute_found [OF assms, of pf d a b rf rfs rt rts w, unfolded swap,
      folded cs_def]
  show ?thesis
    unfolding Let_def cs_def [symmetric] upd
    by (simp add: rd airport_layers_append airport_layers_cleared
        airport_layers_airport_markers markers)
qed

theorem airports_by_route_distance_witness:
  "route_distance flat_distance [(32.77, - 96.79), (29.76, - 95.37)] = 443000 \<and>
   airport_layers (layers (updateRoute sample_parseFloat flat_distance ''Dallas, TX''
       ''Houston, TX'' (GeoResults [dallas]) (GeoResults [fort_worth])
       (RouteData long_payload) earlier_world)) =
     [Marker (32.8998, - 97.0403) airportIcon ''DFW Airport'',
      Marker (32.8481, - 96.8512) airportIcon ''DAL Airport''] \<and>
   route_distance flat_distance [(32.77, - 96.79), (32.76, - 97), (32.75, - 97.33)] = 56000 \<and>
   airport_layers (layers (updateRoute sample_parseFloat flat_distance ''Dallas, TX''
       ''Fort Worth, TX'' (GeoResults [dallas]) (GeoResults [fort_worth])
       (RouteData sample_payload) earlier_world)) = []"
proof -
  have leg: "first_leg (RouteData long_payload) = Some \<lparr>steps = sample_steps\<rparr>"
    "first_leg (RouteData sample_payload) = Some \<lparr>steps = sample_steps\<rparr>"
    by (simp_all add: first_leg_def long_payload_def sample_payload_def)
  have geo: "first_geometry (RouteData long_payload) = Some long_geometry"
    "first_geometry (RouteData sample_payload) = Some sample_geometry"
    by (simp_all add: first_geometry_def long_payload_def sample_payload_def)
  have sums: "(\<Sum>k = 1..<2. f k) = f 1" "(\<Sum>k = 1..<3. f k) = f 1 + f 2" for f :: "nat \<Rightarrow> real"
    by (simp_all add: numeral_3_eq_3 numeral_2_eq_2)
  from airports_by_route_distance [OF leg(1) geo(1), of flat_distance sample_parseFloat
      "''Dallas, TX''" "''Houston, TX''" dallas "[]" fort_worth "[]" earlier_world]
    airports_by_route_distance [OF leg(2) geo(2), of flat_distance sample_parseFloat
      "''Dallas, TX''" "''Fort Worth, TX''" dallas "[]" fort_worth "[]" earlier_world]
  show ?thesis
    by (simp add: Let_def long_geometry_def sample_geometry_def sums flat_distance_def)
qed

text \<open>
  C4. \<open>getCoordinates\<close> returns the latitude and longitude of the first candidate when
  the array of candidates is not empty. When the array is empty, or the request fails,
  it returns null and sets the error to the fixed message of the location lookup; no
  exception leaves the function. When either of the two lookups of \<open>updateRoute\<close> so
  fails, no routing request is made (the requests are the two geocoding requests), and
  the layers of the map, its viewport and the directions are left as they were.
\<close>

theorem geocode_first_or_lookup_error:
  "(resp = GeoResults (r # rs) \<longrightarrow>
      getCoordinates pf a resp w =
        (Some \<lparr>lat = pf (result_lat r), lng = pf (result_lon r)\<rparr>,
         w\<lparr>trace := trace w @ [Fetch (GeocodeRequest a)]\<rparr>)) \<and>
   (resp = GeoResults [] \<or> resp = GeoTransportError \<longrightarrow>
      fst (getCoordinates pf a resp w) = None \<and>
      error (snd (getCoordinates pf a resp w)) =
        Some ''Error finding location. Please try a different address.'') \<and>
   (fromResp = GeoResults [] \<or> fromResp = GeoTransportError \<or>
    toResp = GeoResults [] \<or> toResp = GeoTransportError \<longrightarrow>
      (let w' = updateRoute pf d a b fromResp toResp rr w in
         error w' = Some ''Error finding location. Please try a different address.'' \<and>
         layers w' = layers w \<and> view w' = view w \<and> directions w' = directions w \<and>
         requests_of (trace w') = requests_of (trace w) @ [GeocodeRequest a, GeocodeRequest b]))"
proof (intro conjI impI)
  assume "resp = GeoResults (r # rs)"
  then show "getCoordinates pf a resp w =
        (Some \<lparr>lat = pf (result_lat r), lng = pf (result_lon r)\<rparr>,
         w\<lparr>trace := trace w @ [Fetch (GeocodeRequest a)]\<rparr>)"
    by (simp add: getCoordinates_first)
next
  assume "resp = GeoResults [] \<or> resp = GeoTransportError"
  then have nf: "\<not> geo_found resp"
    by (auto simp: not_geo_found_cases)
  then show "fst (getCoordinates pf a resp w) = None"
    by (simp add: fst_getCoordinates_None)
  from nf show "error (snd (getCoordinates pf a resp w)) =
      Some ''Error finding location. Please try a different address.''"
    by (simp add: getCoordinates_frame location_message_def)
next
  assume "fromResp = GeoResults [] \<or> fromResp = GeoTransportError \<or>
    toResp = GeoResults [] \<or> toResp = GeoTransportError"
  then have nf: "\<not> geo_found fromResp \<or> \<not> geo_found toResp"
    by (auto simp: not_geo_found_cases)
  have msg: "Some ''Error finding location. Please try a different address.'' =
      Some location_message"
    by (simp add: location_message_def)
  from nf show "let w' = updateRoute pf d a b fromResp toResp rr w in
         error w' = Some ''Error finding location. Please try a different address.'' \<and>
         layers w' = layers w \<and> view w' = view w \<and> directions w' = directions w \<and>
         requests_of (trace w') = requests_of (trace w) @ [GeocodeRequest a, GeocodeRequest b]"
    unfolding Let_def updateRoute_geocode_failed [OF nf] msg
    by (auto simp: getCoordinates_frame)
qed

theorem geocode_first_or_lookup_error_witness:
  "getCoordinates sample_parseFloat ''Dallas, TX'' (GeoResults [dallas, fort_worth])
       initial_world =
     (Some \<lparr>lat = 32.77, lng = - 96.79\<rparr>,
      initial_world\<lparr>trace := [Fetch (GeocodeRequest ''Dallas, TX'')]\<rparr>) \<and>
   fst (getCoordinates sample_parseFloat ''Nowhere'' (GeoResults []) earlier_world) = None \<and>
   error (snd (getCoordinates sample_parseFloat ''Nowhere'' (GeoResults []) initial_world)) =
     Some ''Error finding location. Please try a different address.'' \<and>
   layers (updateRoute sample_parseFloat flat_distance ''Nowhere'' ''Fort Worth, TX''
       (GeoResults []) (GeoResults [fort_worth]) (RouteData sample_payload) earlier_world) =
     layers earlier_world \<and>
   requests_of (trace (updateRoute sample_parseFloat flat_distance ''Nowhere''
       ''Fort Worth, TX'' (GeoResults []) (GeoResults [fort_worth]) (RouteData sample_payload)
       earlier_world)) =
     [GeocodeRequest ''Nowhere'', GeocodeRequest ''Fort Worth, TX'']"
  using geocode_first_or_lookup_error [of "GeoResults [dallas, fort_worth]" dallas "[fort_worth]"
      sample_parseFloat "''Dallas, TX''" initial_world "GeoResults []" "GeoResults [fort_worth]"
      flat_distance "''Nowhere''" "RouteData sample_payload"]
    geocode_first_or_lookup_error [of "GeoResults []" dallas "[]"
      sample_parseFloat "''Nowhere''" earlier_world "GeoResults []" "GeoResults [fort_worth]"
      flat_distance "''Fort Worth, TX''" "RouteData sample_payload"]
    geocode_first_or_lookup_error [of "GeoResults []" dallas "[]"
      sample_parseFloat "''Nowhere''" initial_world "GeoResults []" "GeoResults [fort_worth]"
      flat_distance "''Fort Worth, TX''" "RouteData sample_payload"]
  by (simp add: Let_def dallas_def sample_parseFloat_def initial_world_def earlier_world_def)

text \<open>
  C5, as amended. A routing answer is read only after both lookups have succeeded and
  the markers and polylines of the map have been removed. When its status is not \<open>Ok\<close>,
  \<open>updateRoute\<close> sets the error to the fixed message of the route lookup and adds no
  layer: the earlier markers and polylines are gone, the other layers stay, and the
  directions and the viewport are left as they were.
\<close>

theorem route_error_clears_layers:
  assumes "code data \<noteq> ''Ok''"
  shows "let w' = updateRoute pf d a b (GeoResults (rf # rfs)) (GeoResults (rt # rts))
                    (RouteData data) w
         in error w' = Some ''Error finding route. Please try again.'' \<and>
            layers w' = filter (\<lambda>l. \<not> is_route_layer l) (layers w) \<and>
            markers (layers w') = [] \<and> polylines (layers w') = [] \<and>
            directions w' = directions w \<and> view w' = view w"
proof -
  from updateRoute_no_leg [OF first_leg_not_ok [OF assms], of pf d a b rf rfs rt rts w]
  obtain e where "updateRoute pf d a b (GeoResults (rf # rfs)) (GeoResults (rt # rts))
      (RouteData data) w =
     w\<lparr>error := Some route_message,
       layers := filter (\<lambda>l. \<not> is_route_layer l) (layers w),
       trace := trace w @
         [Fetch (GeocodeRequest a), Fetch (GeocodeRequest b),
          Fetch (RouteRequest \<lparr>lat = pf (result_lat rf), lng = pf (result_lon rf)\<rparr>
                   \<lparr>lat = pf (result_lat rt), lng = pf (result_lon rt)\<rparr>),
          ConsoleError route_log e, SetError (Some route_message)]\<rparr>"
    by blast
  then show ?thesis
    by (simp add: Let_def markers_cleared polylines_cleared route_message_def)
qed

theorem route_error_clears_layers_witness:
  "code no_route_payload \<noteq> ''Ok'' \<and>
   error (updateRoute sample_parseFloat flat_distance ''Dallas, TX'' ''Fort Worth, TX''
       (GeoResults [dallas]) (GeoResults [fort_worth]) (RouteData no_route_payload)
       earlier_world) = Some ''Error finding route. Please try again.'' \<and>
   layers (updateRoute sample_parseFloat flat_distance ''Dallas, TX'' ''Fort Worth, TX''
       (GeoResults [dallas]) (GeoResults [fort_worth]) (RouteData no_route_payload)
       earlier_world) = [OtherLayer ''TileLayer'']"
proof -
  have h: "code no_route_payload \<noteq> ''Ok''"
    by (simp add: no_route_payload_def)
  from h route_error_clears_layers [OF h, of sample_parseFloat flat_distance "''Dallas, TX''"
      "''Fort Worth, TX''" dallas "[]" fort_worth "[]" earlier_world]
  show ?thesis
    by (simp add: Let_def earlier_world_def is_route_layer_def)
qed

text \<open>
  C5, as stated, fails: with a route drawn by an earlier run, two lookups that succeed
  and a routing answer of status \<open>NoRoute\<close>, the error is the route message and the
  two markers and the polyline of the earlier run are no longer on the map.
\<close>

theorem route_error_keeps_layers_counterexample:
  "code no_route_payload \<noteq> ''Ok'' \<and>
   error (updateRoute sample_parseFloat flat_distance ''Dallas, TX'' ''Fort Worth, TX''
       (GeoResults [dallas]) (GeoResults [fort_worth]) (RouteData no_route_payload)
       earlier_world) = Some route_message \<and>
   layers earlier_world =
     [OtherLayer ''TileLayer'', Marker (1, 2) DefaultIcon ''Start: A'',
      Marker (3, 4) DefaultIcon ''End: B'', Polyline [(1, 2), (3, 4)] ''#2196F3'' 5] \<and>
   layers (updateRoute sample_parseFloat flat_distance ''Dallas, TX'' ''Fort Worth, TX''
       (GeoResults [dallas]) (GeoResults [fort_worth]) (RouteData no_route_payload)
       earlier_world) = [OtherLayer ''TileLayer'']"
proof -
  have "first_leg (RouteData no_route_payload) = None"
    by (simp add: first_leg_def no_route_payload_def)
  from updateRoute_no_leg [OF this, of sample_parseFloat flat_distance "''Dallas, TX''"
      "''Fort Worth, TX''" dallas "[]" fort_worth "[]" earlier_world]
  show ?thesis
    by (auto simp: no_route_payload_def earlier_world_def is_route_layer_def)
qed

text \<open>
  C6, as amended. For a routing answer that \<open>getRoute\<close> accepts, the directions are
  built from the steps of the first leg of the first route, one entry for each step in
  order. The instruction of an entry is the instruction of the maneuver when it is
  present and not the empty string, and the name of the road otherwise. Its distance is
  the distance of the step rounded by \<open>Math.round\<close>: \<open>\<lfloor>x + 1/2\<rfloor>\<close>, an integer
  nearest to \<open>x\<close>.
\<close>

theorem directions_from_first_leg:
  assumes "first_leg rr = Some leg0" and "first_geometry rr = Some g"
  shows "let ds = directions (snd (getRoute s f rr w)) in
     length ds = length (steps leg0) \<and>
     (\<forall>i<length (steps leg0).
        instruction (ds ! i) =
          (case maneuver_instruction (steps leg0 ! i) of
             None \<Rightarrow> step_name (steps leg0 ! i)
           | Some t \<Rightarrow> if t = [] then step_name (steps leg0 ! i) else t) \<and>
        distance (ds ! i) = \<lfloor>step_distance (steps leg0 ! i) + 1 / 2\<rfloor> \<and>
        (\<forall>k. \<bar>of_int (distance (ds ! i)) - step_distance (steps leg0 ! i)\<bar>
               \<le> \<bar>of_int k - step_distance (steps leg0 ! i)\<bar>))"
proof -
  have ds: "directions (snd (getRoute s f rr w)) = map toRouteStep (steps leg0)"
    by (simp add: getRoute_found [OF assms])
  have "\<bar>of_int (distance (toRouteStep x)) - step_distance x\<bar> \<le> \<bar>of_int k - step_distance x\<bar>"
    for x k
    using Math_round_nearest [of "step_distance x" k] by (simp add: toRouteStep_def)
  then show ?thesis
    unfolding Let_def ds
    by (simp add: toRouteStep_def or_else_def Math_round_def)
qed

theorem directions_from_first_leg_witness:
  "first_leg (RouteData sample_payload) = Some \<lparr>steps = sample_steps\<rparr> \<and>
   first_geometry (RouteData sample_payload) = Some sample_geometry \<and>
   directions (snd (getRoute \<lparr>lat = 32.77, lng = - 96.79\<rparr> \<lparr>lat = 32.75, lng = - 97.33\<rparr>
       (RouteData sample_payload) initial_world)) =
     [\<lparr>instruction = ''Main St'', distance = 120\<rparr>,
      \<lparr>instruction = ''Merge'', distance = 51001\<rparr>,
      \<lparr>instruction = ''Lamar St'', distance = 80\<rparr>]"
proof -
  have leg: "first_leg (RouteData sample_payload) = Some \<lparr>steps = sample_steps\<rparr>"
    by (simp add: first_leg_def sample_payload_def)
  have geo: "first_geometry (RouteData sample_payload) = Some sample_geometry"
    by (simp add: first_geometry_def sample_payload_def)
  let ?ds = "directions (snd (getRoute \<lparr>lat = 32.77, lng = - 96.79\<rparr>
       \<lparr>lat = 32.75, lng = - 97.33\<rparr> (RouteData sample_payload) initial_world))"
  from directions_from_first_leg [OF leg geo, of "\<lparr>lat = 32.77, lng = - 96.79\<rparr>"
      "\<lparr>lat = 32.75, lng = - 97.33\<rparr>" initial_world, unfolded Let_def, THEN conjunct1]
  have len: "length ?ds = 3"
    by (simp add: sample_steps_def)
  have "?ds = [\<lparr>instruction = ''Main St'', distance = 120\<rparr>,
      \<lparr>instruction = ''Merge'', distance = 51001\<rparr>,
      \<lparr>instruction = ''Lamar St'', distance = 80\<rparr>]"
    using len
    by (simp add: getRoute_found [OF leg geo] sample_steps_def toRouteStep_def or_else_def
        Math_round_def)
  with leg geo show ?thesis by simp
qed

text \<open>
  C6, as stated, fails: a maneuver whose instruction is present and is the empty string
  does not give an entry with that instruction; the entry takes the name of the road.
\<close>

theorem instruction_fallback_counterexample:
  "first_leg (RouteData sample_payload) = Some \<lparr>steps = sample_steps\<rparr> \<and>
   first_geometry (RouteData sample_payload) = Some sample_geometry \<and>
   maneuver_instruction (sample_steps ! 2) = Some [] \<and>
   step_name (sample_steps ! 2) = ''Lamar St'' \<and>
   instruction (directions (snd (getRoute \<lparr>lat = 32.77, lng = - 96.79\<rparr>
       \<lparr>lat = 32.75, lng = - 97.33\<rparr> (RouteData sample_payload) initial_world)) ! 2) =
     ''Lamar St''"
proof -
  have leg: "first_leg (RouteData sample_payload) = Some \<lparr>steps = sample_steps\<rparr>"
    by (simp add: first_leg_def sample_payload_def)
  have geo: "first_geometry (RouteData sample_payload) = Some sample_geometry"
    by (simp add: first_geometry_def sample_payload_def)
  show ?thesis
    by (simp add: leg geo getRoute_found [OF leg geo] sample_steps_def toRouteStep_def
        or_else_def)
qed

text \<open>
  C7. In every state whose active tab is the directions tab (\<open>tabValue = 1\<close>), the panel
  is shown. When the directions are not empty it holds a list with exactly one entry for
  each step, in order: the entry of step \<open>i\<close> shows the instruction of the step and its
  distance followed by \<open>meters\<close>. When the directions are empty it holds the prompt.
\<close>

theorem directions_tab_entries:
  assumes "tabValue w = 1"
  shows "(directions w \<noteq> [] \<longrightarrow>
            directions_tab nt w = (False, Some (ListView (directions_list nt (directions w)))) \<and>
            length (directions_list nt (directions w)) = length (directions w) \<and>
            (\<forall>i<length (directions w).
               primary (directions_list nt (directions w) ! i) = instruction (directions w ! i) \<and>
               secondary (directions_list nt (directions w) ! i) =
                 nt (distance (directions w ! i)) @ '' meters'')) \<and>
         (directions w = [] \<longrightarrow>
            directions_tab nt w =
              (False,
               Some (Prompt (''Enter a destination and click '' @ [CHR 0x22] @
                 ''Get Directions'' @ [CHR 0x22] @ '' to see turn-by-turn directions''))))"
  using assms
  by (simp add: directions_tab_def TabPanel_def directions_panel_def length_directions_list
      nth_directions_list)

theorem directions_tab_entries_witness:
  "tabValue (handleTabChange 1 (resolve sample_parseFloat flat_distance sample_answers
      (setDestination ''Fort Worth, TX'' (setOrigin ''Dallas, TX'' initial_world)))) = 1 \<and>
   directions_tab decimal_text
     (handleTabChange 1 (resolve sample_parseFloat flat_distance sample_answers
        (setDestination ''Fort Worth, TX'' (setOrigin ''Dallas, TX'' initial_world)))) =
     (False,
      Some (ListView
        [\<lparr>item_key = 0, divider = True, primary = ''Main St'', secondary = ''120 meters''\<rparr>,
         \<lparr>item_key = 1, divider = True, primary = ''Merge'', secondary = ''51001 meters''\<rparr>,
         \<lparr>item_key = 2, divider = False, primary = ''Lamar St'', secondary = ''80 meters''\<rparr>])) \<and>
   directions_tab decimal_text (handleTabChange 1 initial_world) =
     (False,
      Some (Prompt (''Enter a destination and click '' @ [CHR 0x22] @
        ''Get Directions'' @ [CHR 0x22] @ '' to see turn-by-turn directions'')))"
proof -
  let ?w = "handleTabChange 1 (resolve sample_parseFloat flat_distance sample_answers
      (setDestination ''Fort Worth, TX'' (setOrigin ''Dallas, TX'' initial_world)))"
  have leg: "first_leg (RouteData sample_payload) = Some \<lparr>steps = sample_steps\<rparr>"
    by (simp add: first_leg_def sample_payload_def)
  have geo: "first_geometry (RouteData sample_payload) = Some sample_geometry"
    by (simp add: first_geometry_def sample_payload_def)
  have tab: "tabValue ?w = 1" "tabValue (handleTabChange 1 initial_world) = 1"
    by (simp_all add: handleTabChange_def)
  have ds: "directions ?w =
     [\<lparr>instruction = ''Main St'', distance = 120\<rparr>,
      \<lparr>instruction = ''Merge'', distance = 51001\<rparr>,
      \<lparr>instruction = ''Lamar St'', distance = 80\<rparr>]"
    by (simp add: handleTabChange_def resolve_def RouteMap_def setOrigin_def
        setDestination_def sample_answers_def updateRoute_found [OF leg geo]
        sample_steps_def toRouteStep_def or_else_def Math_round_def)
  have none: "directions (handleTabChange 1 initial_world) = []"
    by (simp add: handleTabChange_def initial_world_def)
  have texts: "decimal_text 120 = ''120''" "decimal_text 51001 = ''51001''"
    "decimal_text 80 = ''80''"
    by (simp_all add: decimal_text_def digits_below_ten digits_from_ten)
  from directions_tab_entries [OF tab(1), of decimal_text]
    directions_tab_entries [OF tab(2), of decimal_text] tab(1)
  show ?thesis
    unfolding ds none
    by (simp add: directions_list_def texts)
qed



text \<open>
  C9. A run of the resolver whose three calls succeed leaves the error as it was and
  never calls \<open>setError\<close>. Of all the events of the application (typing in a field,
  \<open>handleSubmit\<close>, a change of tab, a run of the resolver) only \<open>handleSubmit\<close> with
  both fields filled turns an error that is set into null. So the error stays through
  any number of successful runs in a row.
\<close>

theorem error_kept_by_successful_resolution:
  "(resolved a \<longrightarrow>
      error (resolve pf d a w) = error w \<and>
      errors_set (trace (resolve pf d a w)) = errors_set (trace w)) \<and>
   (error w \<noteq> None \<and> error (step pf d act w) = None \<longrightarrow>
      act = Submit \<and> origin w \<noteq> [] \<and> destination w \<noteq> []) \<and>
   ((\<forall>x\<in>set as. resolved x) \<longrightarrow> error (resolve_all pf d as w) = error w)"
proof (intro conjI impI)
  assume "resolved a"
  then show "error (resolve pf d a w) = error w"
    "errors_set (trace (resolve pf d a w)) = errors_set (trace w)"
    by (rule error_resolve_resolved)+
next
  assume h: "error w \<noteq> None \<and> error (step pf d act w) = None"
  show "act = Submit"
  proof (cases act)
    case (Resolve x)
    with h error_resolve_not_cleared [of w pf d x] show ?thesis by simp
  qed (use h in \<open>auto simp: setOrigin_def setDestination_def handleTabChange_def\<close>)
  with h show "origin w \<noteq> []" "destination w \<noteq> []"
    by (auto simp: handleSubmit_def setError_def split: if_splits)
next
  assume "\<forall>x\<in>set as. resolved x"
  then show "error (resolve_all pf d as w) = error w"
    by (rule error_resolve_all)
qed

theorem error_kept_by_successful_resolution_witness:
  "resolved sample_answers \<and>
   error earlier_world = Some location_message \<and>
   error (resolve sample_parseFloat flat_distance sample_answers earlier_world) =
     Some location_message \<and>
   error (resolve_all sample_parseFloat flat_distance
            [sample_answers, sample_answers, sample_answers] earlier_world) =
     Some location_message \<and>
   error (step sample_parseFloat flat_distance Submit earlier_world) = None \<and>
   origin earlier_world \<noteq> [] \<and> destination earlier_world \<noteq> []"
proof -
  have r: "resolved sample_answers"
    by (simp add: resolved_def sample_answers_def geo_found_def route_found_def first_leg_def
        first_geometry_def sample_payload_def)
  have e: "error earlier_world = Some location_message"
    by (simp add: earlier_world_def)
  have s: "error (step sample_parseFloat flat_distance Submit earlier_world) = None"
    by (simp add: handleSubmit_def setError_def earlier_world_def)
  from r e s
    error_kept_by_successful_resolution [of sample_answers sample_parseFloat flat_distance
      earlier_world Submit "[sample_answers, sample_answers, sample_answers]"]
  show ?thesis by simp
qed

text \<open>
  C10, as amended. A run of \<open>updateRoute\<close> leaves the directions as they were, and never
  calls \<open>setDirections\<close>, when a lookup fails or when the routing answer fails before
  \<open>setDirections\<close> is reached (a failed request, a status other than \<open>Ok\<close>, no first
  route, no first leg, or a step without its maneuver). So the directions are written
  only after both lookups have succeeded and the steps of the first leg of an answer of
  status \<open>Ok\<close> have been mapped.
\<close>

theorem directions_kept_until_steps_read:
  "(\<not> geo_found fromResp \<or> \<not> geo_found toResp \<or> first_leg rr = None \<longrightarrow>
      directions (updateRoute pf d a b fromResp toResp rr w) = directions w \<and>
      directions_written (trace (updateRoute pf d a b fromResp toResp rr w)) =
        directions_written (trace w)) \<and>
   (directions_written (trace (updateRoute pf d a b fromResp toResp rr w)) \<noteq>
      directions_written (trace w) \<longrightarrow>
      geo_found fromResp \<and> geo_found toResp \<and> first_leg rr \<noteq> None) \<and>
   first_leg RouteTransportError = None \<and>
   first_leg RouteStepWithoutManeuver = None \<and>
   (code data \<noteq> ''Ok'' \<or> routes data = [] \<or> legs (hd (routes data)) = [] \<longrightarrow>
      first_leg (RouteData data) = None)"
proof (intro conjI impI)
  assume "\<not> geo_found fromResp \<or> \<not> geo_found toResp \<or> first_leg rr = None"
  then show "directions (updateRoute pf d a b fromResp toResp rr w) = directions w"
    "directions_written (trace (updateRoute pf d a b fromResp toResp rr w)) =
       directions_written (trace w)"
    by (auto simp: directions_updateRoute(1,2))
next
  assume changed: "directions_written (trace (updateRoute pf d a b fromResp toResp rr w)) \<noteq>
      directions_written (trace w)"
  then show "geo_found fromResp" "geo_found toResp"
    by (simp_all add: directions_updateRoute(2) split: if_splits)
  from changed show "first_leg rr \<noteq> None"
    by (auto simp: directions_updateRoute(2) split: if_splits option.splits)
next
  show "first_leg RouteTransportError = None" "first_leg RouteStepWithoutManeuver = None"
    by (simp_all add: first_leg_def)
next
  assume bad: "code data \<noteq> ''Ok'' \<or> routes data = [] \<or> legs (hd (routes data)) = []"
  show "first_leg (RouteData data) = None"
  proof (cases "routes data")
    case Nil
    then show ?thesis by (simp add: first_leg_def)
  next
    case (Cons route0 rest)
    with bad show ?thesis by (auto simp: first_leg_def)
  qed
qed

theorem directions_kept_until_steps_read_witness:
  "\<not> geo_found (GeoResults []) \<and>
   directions (updateRoute sample_parseFloat flat_distance ''Nowhere'' ''Fort Worth, TX''
       (GeoResults []) (GeoResults [fort_worth]) (RouteData sample_payload) earlier_world) =
     [\<lparr>instruction = ''Elm St'', distance = 7\<rparr>] \<and>
   code no_route_payload \<noteq> ''Ok'' \<and>
   directions (updateRoute sample_parseFloat flat_distance ''Dallas, TX'' ''Fort Worth, TX''
       (GeoResults [dallas]) (GeoResults [fort_worth]) (RouteData no_route_payload)
       earlier_world) =
     [\<lparr>instruction = ''Elm St'', distance = 7\<rparr>] \<and>
   directions (updateRoute sample_parseFloat flat_distance ''Dallas, TX'' ''Fort Worth, TX''
       (GeoResults [dallas]) (GeoResults [fort_worth]) RouteStepWithoutManeuver
       earlier_world) =
     [\<lparr>instruction = ''Elm St'', distance = 7\<rparr>] \<and>
   directions_written (trace (updateRoute sample_parseFloat flat_distance ''Dallas, TX''
       ''Fort Worth, TX'' (GeoResults [dallas]) (GeoResults [fort_worth])
       RouteStepWithoutManeuver earlier_world)) = [] \<and>
   directions_written (trace (updateRoute sample_parseFloat flat_distance ''Dallas, TX''
       ''Fort Worth, TX'' (GeoResults [dallas]) (GeoResults [fort_worth])
       (RouteData sample_payload) earlier_world)) \<noteq> directions_written (trace earlier_world) \<and>
   geo_found (GeoResults [dallas]) \<and> geo_found (GeoResults [fort_worth]) \<and>
   first_leg (RouteData sample_payload) \<noteq> None"
proof -
  let ?run = "\<lambda>fromResp toResp rr. updateRoute sample_parseFloat flat_distance ''Dallas, TX''
       ''Fort Worth, TX'' fromResp toResp rr earlier_world"
  have g: "\<not> geo_found (GeoResults [])"
    by (simp add: geo_found_def)
  have c: "code no_route_payload \<noteq> ''Ok''"
    by (simp add: no_route_payload_def)
  have ds: "directions earlier_world = [\<lparr>instruction = ''Elm St'', distance = 7\<rparr>]"
    "directions_written (trace earlier_world) = []"
    by (simp_all add: earlier_world_def)
  have leg: "first_leg (RouteData sample_payload) = Some \<lparr>steps = sample_steps\<rparr>"
    by (simp add: first_leg_def sample_payload_def)
  have geo: "first_geometry (RouteData sample_payload) = Some sample_geometry"
    by (simp add: first_geometry_def sample_payload_def)
  have written: "directions_written (trace (?run (GeoResults [dallas]) (GeoResults [fort_worth])
       (RouteData sample_payload))) \<noteq> directions_written (trace earlier_world)"
    by (simp add: updateRoute_found [OF leg geo] directions_written_append ds(2))
  note kept = directions_kept_until_steps_read [where pf = sample_parseFloat
      and d = flat_distance and b = "''Fort Worth, TX''" and w = earlier_world
      and data = no_route_payload]
  have none: "first_leg (RouteData no_route_payload) = None"
    "first_leg RouteStepWithoutManeuver = None"
    using kept [of "GeoResults []" "GeoResults []" RouteTransportError "''Nowhere''"] c
    by blast+
  have k1: "directions (updateRoute sample_parseFloat flat_distance ''Nowhere''
       ''Fort Worth, TX'' (GeoResults []) (GeoResults [fort_worth]) (RouteData sample_payload)
       earlier_world) = directions earlier_world"
    using kept [of "GeoResults []" "GeoResults [fort_worth]" "RouteData sample_payload"
        "''Nowhere''"] g
    by blast
  have k2: "directions (?run (GeoResults [dallas]) (GeoResults [fort_worth])
       (RouteData no_route_payload)) = directions earlier_world"
    using kept [of "GeoResults [dallas]" "GeoResults [fort_worth]" "RouteData no_route_payload"
        "''Dallas, TX''"] none(1)
    by blast
  have k3: "directions (?run (GeoResults [dallas]) (GeoResults [fort_worth])
       RouteStepWithoutManeuver) = directions earlier_world"
    "directions_written (trace (?run (GeoResults [dallas]) (GeoResults [fort_worth])
       RouteStepWithoutManeuver)) = directions_written (trace earlier_world)"
    using kept [of "GeoResults [dallas]" "GeoResults [fort_worth]" RouteStepWithoutManeuver
        "''Dallas, TX''"] none(2)
    by blast+
  have k4: "geo_found (GeoResults [dallas])" "geo_found (GeoResults [fort_worth])"
    "first_leg (RouteData sample_payload) \<noteq> None"
    using kept [of "GeoResults [dallas]" "GeoResults [fort_worth]" "RouteData sample_payload"
        "''Dallas, TX''"] written
    by blast+
  from g c k1 k2 k3 k4 written show ?thesis
    unfolding ds by (intro conjI)
qed

text \<open>
  C10, as stated, fails: \<open>setDirections\<close> (line 79) runs before the geometry is read
  (line 81). For an answer of status \<open>Ok\<close> with steps and no geometry, \<open>getRoute\<close>
  returns null and the error is the route message, no route is drawn, and yet the
  directions of the earlier run have been replaced.
\<close>

theorem directions_written_on_failure_counterexample:
  "fst (getRoute \<lparr>lat = 32.77, lng = - 96.79\<rparr> \<lparr>lat = 32.75, lng = - 97.33\<rparr>
         (RouteData no_geometry_payload) earlier_world) = None \<and>
   error (updateRoute sample_parseFloat flat_distance ''Dallas, TX'' ''Fort Worth, TX''
       (GeoResults [dallas]) (GeoResults [fort_worth]) (RouteData no_geometry_payload)
       earlier_world) = Some route_message \<and>
   polylines (layers (updateRoute sample_parseFloat flat_distance ''Dallas, TX''
       ''Fort Worth, TX'' (GeoResults [dallas]) (GeoResults [fort_worth])
       (RouteData no_geometry_payload) earlier_world)) = [] \<and>
   directions earlier_world = [\<lparr>instruction = ''Elm St'', distance = 7\<rparr>] \<and>
   directions (updateRoute sample_parseFloat flat_distance ''Dallas, TX'' ''Fort Worth, TX''
       (GeoResults [dallas]) (GeoResults [fort_worth]) (RouteData no_geometry_payload)
       earlier_world) =
     [\<lparr>instruction = ''Main St'', distance = 120\<rparr>,
      \<lparr>instruction = ''Merge'', distance = 51001\<rparr>,
      \<lparr>instruction = ''Lamar St'', distance = 80\<rparr>]"
proof -
  have leg: "first_leg (RouteData no_geometry_payload) = Some \<lparr>steps = sample_steps\<rparr>"
    by (simp add: first_leg_def no_geometry_payload_def)
  have geo: "first_geometry (RouteData no_geometry_payload) = None"
    by (simp add: first_geometry_def no_geometry_payload_def)
  have steps: "map toRouteStep sample_steps =
     [\<lparr>instruction = ''Main St'', distance = 120\<rparr>,
      \<lparr>instruction = ''Merge'', distance = 51001\<rparr>,
      \<lparr>instruction = ''Lamar St'', distance = 80\<rparr>]"
    by (simp add: sample_steps_def toRouteStep_def or_else_def Math_round_def)
  show ?thesis
    by (simp add: getRoute_no_geometry [OF leg geo] updateRoute_no_geometry [OF leg geo]
        steps polylines_cleared) (simp add: earlier_world_def)
qed

end
